theory Spec2Isabelle
  imports Main "HOL-Library.Word" "HOL-Library.Signed_Division"
begin

unbundle bit_operations_syntax

section \<open>Platform constants\<close>

text \<open>
  The error numbers of \<^verbatim>\<open>errno.h\<close> on Linux (the only platform vold is built for).
  The C type of \<^verbatim>\<open>errno\<close>, of an exit status and of \<^verbatim>\<open>status_t\<close> is a 32-bit
  \<^verbatim>\<open>int\<close>; the code only compares and assigns such values, so they are modelled by
  \<^typ>\<open>int\<close>.
\<close>

definition EIO :: int where "EIO = 5"
definition EROFS :: int where "EROFS = 30"
definition ENODATA :: int where "ENODATA = 61"
definition ETIMEDOUT :: int where "ETIMEDOUT = 110"

text \<open>The paths of the two external tools (file-level constants of Vfat.cpp).\<close>

definition kMkfsPath :: string where "kMkfsPath = ''/system/bin/newfs_msdos''"
definition kFsckPath :: string where "kFsckPath = ''/system/bin/fsck_msdos''"

section \<open>The process state and the host\<close>

text \<open>
  What the operations of Vfat.cpp change is kept in a record that is passed through
  every call: the thread's \<^verbatim>\<open>errno\<close>, and a trace of the commands handed to the two
  execution primitives of Utils.cpp. \<open>ExecTimeout argv timeout context\<close> is a call of
  \<^verbatim>\<open>ForkExecvpTimeout\<close>, \<open>Exec argv\<close> a call of \<^verbatim>\<open>ForkExecvp\<close>.
\<close>

datatype exec_call = ExecTimeout "string list" int string | Exec "string list"

text \<open>The arguments of one \<^verbatim>\<open>mount(2)\<close> call.\<close>

record mount_call =
  mc_source :: string
  mc_target :: string
  mc_fstype :: string
  mc_flags :: "64 word"
  mc_data :: string

text \<open>
  The state also keeps the trace of the \<^verbatim>\<open>mount(2)\<close> calls and of the \<^verbatim>\<open>mkdir(2)\<close>
  calls (path and mode), oldest first.
\<close>

record proc_state =
  errno :: int
  exec_log :: "exec_call list"
  mount_log :: "mount_call list"
  mkdir_log :: "(string \<times> nat) list"

text \<open>
  What the code reads from its surroundings is a parameter of the model. Utils.cpp is
  not part of the sources at hand, so the value an execution primitive returns is
  supplied by the host: \<open>exec_status h n\<close> is the \<^verbatim>\<open>int\<close> returned by the \<open>n\<close>-th
  call (counted from 0) of an execution primitive. The timeout and the security label
  handed to \<^verbatim>\<open>ForkExecvpTimeout\<close> are constants of Utils.h and are taken from the host
  as well, and so is the answer of \<^verbatim>\<open>IsFilesystemSupported\<close>. These three functions
  of Utils.cpp are taken to leave \<^verbatim>\<open>errno\<close> as they found it.

  A system call answers \<open>None\<close> when it succeeds (it returns 0 and leaves \<^verbatim>\<open>errno\<close>
  alone) and \<open>Some e\<close> when it fails (it returns -1 and sets \<^verbatim>\<open>errno\<close> to \<open>e\<close>).
  The answer of \<^verbatim>\<open>mount(2)\<close> may depend on how many mount calls came before and on
  the arguments. \<open>tm_gmtoff h\<close> is the field of that name (a \<^verbatim>\<open>long\<close>, 64 bits) that
  \<^verbatim>\<open>localtime_r\<close> fills in for the current time.
\<close>

record host =
  exec_status :: "nat \<Rightarrow> int"
  kUntrustedFsckSleepTime :: int
  sFsckUntrustedContext :: string
  fs_supported :: "string \<Rightarrow> bool"
  access_sys :: "string \<Rightarrow> int \<Rightarrow> int option"
  mount_sys :: "nat \<Rightarrow> mount_call \<Rightarrow> int option"
  mkdir_sys :: "string \<Rightarrow> nat \<Rightarrow> int option"
  tm_gmtoff :: "64 word"

definition ForkExecvpTimeout :: "host \<Rightarrow> string list \<Rightarrow> int \<Rightarrow> string \<Rightarrow> proc_state \<Rightarrow> int \<times> proc_state" where
  "ForkExecvpTimeout h cmd timeout context s =
     (exec_status h (length (exec_log s)),
      s\<lparr>exec_log := exec_log s @ [ExecTimeout cmd timeout context]\<rparr>)"

definition ForkExecvp :: "host \<Rightarrow> string list \<Rightarrow> proc_state \<Rightarrow> int \<times> proc_state" where
  "ForkExecvp h cmd s =
     (exec_status h (length (exec_log s)), s\<lparr>exec_log := exec_log s @ [Exec cmd]\<rparr>)"

definition IsFilesystemSupported :: "host \<Rightarrow> string \<Rightarrow> bool" where
  "IsFilesystemSupported h fsType = fs_supported h fsType"

definition F_OK :: int where "F_OK = 0"
definition X_OK :: int where "X_OK = 1"

definition access :: "host \<Rightarrow> string \<Rightarrow> int \<Rightarrow> proc_state \<Rightarrow> int \<times> proc_state" where
  "access h path amode s =
     (case access_sys h path amode of
        None \<Rightarrow> (0, s)
      | Some e \<Rightarrow> (- 1, s\<lparr>errno := e\<rparr>))"

definition mount :: "host \<Rightarrow> string \<Rightarrow> string \<Rightarrow> string \<Rightarrow> 64 word \<Rightarrow> string \<Rightarrow> proc_state
    \<Rightarrow> int \<times> proc_state" where
  "mount h src tgt fstype flags data s =
     (let call = \<lparr>mc_source = src, mc_target = tgt, mc_fstype = fstype,
                   mc_flags = flags, mc_data = data\<rparr>;
          s1 = s\<lparr>mount_log := mount_log s @ [call]\<rparr>
      in case mount_sys h (length (mount_log s)) call of
           None \<Rightarrow> (0, s1)
         | Some e \<Rightarrow> (- 1, s1\<lparr>errno := e\<rparr>))"

definition mkdir :: "host \<Rightarrow> string \<Rightarrow> nat \<Rightarrow> proc_state \<Rightarrow> int \<times> proc_state" where
  "mkdir h path mode s =
     (let s1 = s\<lparr>mkdir_log := mkdir_log s @ [(path, mode)]\<rparr>
      in case mkdir_sys h path mode of
           None \<Rightarrow> (0, s1)
         | Some e \<Rightarrow> (- 1, s1\<lparr>errno := e\<rparr>))"

section \<open>IsSupported\<close>

text \<open>The conjunction is evaluated left to right and stops at the first false operand.\<close>

definition IsSupported :: "host \<Rightarrow> proc_state \<Rightarrow> bool \<times> proc_state" where
  "IsSupported h s =
     (let r1 = access h kMkfsPath X_OK s
      in if fst r1 \<noteq> 0 then (False, snd r1)
         else let r2 = access h kFsckPath X_OK (snd r1)
              in if fst r2 \<noteq> 0 then (False, snd r2)
                 else (IsFilesystemSupported h ''vfat'', snd r2))"

section \<open>Check\<close>

text \<open>
  The \<^verbatim>\<open>do { ... } while (1)\<close> loop of \<^verbatim>\<open>Check\<close>, as a recursive function of the
  loop variable \<^verbatim>\<open>pass\<close>. The result is the returned \<^verbatim>\<open>status_t\<close> and the state
  the call leaves. \<^verbatim>\<open>case 1\<close> returns without an assignment to \<^verbatim>\<open>errno\<close>, as in the
  source. The \<^verbatim>\<open>switch\<close> labels are pairwise different constants, so the chain of
  tests below takes the same branch.
\<close>

function Check_loop :: "host \<Rightarrow> string \<Rightarrow> int \<Rightarrow> proc_state \<Rightarrow> int \<times> proc_state" where
  "Check_loop h source pass s =
     (let cmd = [kFsckPath, ''-p'', ''-f'', ''-y'', source];
          r = ForkExecvpTimeout h cmd (kUntrustedFsckSleepTime h) (sFsckUntrustedContext h) s;
          rc = fst r;
          s1 = snd r
      in if rc < 0 then (- 1, s1\<lparr>errno := EIO\<rparr>)
         else if rc = 0 then (0, s1)
         else if rc = 1 then (- 1, s1)
         else if rc = 2 then (- 1, s1\<lparr>errno := ENODATA\<rparr>)
         else if rc = 4 then
           (if pass \<le> 3 then Check_loop h source (pass + 1) s1
            else (- 1, s1\<lparr>errno := EIO\<rparr>))
         else if rc = 8 then (- 1, s1\<lparr>errno := ENODATA\<rparr>)
         else if rc = ETIMEDOUT then (- 1, s1\<lparr>errno := ETIMEDOUT\<rparr>)
         else (- 1, s1\<lparr>errno := EIO\<rparr>))"
  by pat_completeness auto
termination
  by (relation "measure (\<lambda>(h, source, pass, s). nat (4 - pass))") auto

declare Check_loop.simps [simp del]

definition Check :: "host \<Rightarrow> string \<Rightarrow> proc_state \<Rightarrow> int \<times> proc_state" where
  "Check h source s = Check_loop h source 1 s"

section \<open>Formatted output\<close>

text \<open>
  \<^verbatim>\<open>StringPrintf\<close> (libbase) formats as \<^verbatim>\<open>printf\<close> does. The model covers the four
  conversions Vfat.cpp uses, with no flags, width or precision: \<^verbatim>\<open>%d\<close> (an \<^verbatim>\<open>int\<close>,
  signed decimal), \<^verbatim>\<open>%o\<close> (the same 32 bits read as \<^verbatim>\<open>unsigned int\<close>, octal, no
  leading zero), \<^verbatim>\<open>%lu\<close> (an \<^verbatim>\<open>unsigned long\<close> of 64 bits, decimal) and \<^verbatim>\<open>%s\<close>
  (a C string). A format the code never uses (another conversion, or an argument of
  the wrong kind) ends the output there.
\<close>

definition digit :: "nat \<Rightarrow> char" where
  "digit d = ''0123456789'' ! d"

fun to_base :: "nat \<Rightarrow> nat \<Rightarrow> string" where
  "to_base b n =
     (if b < 2 \<or> n < b then [digit n] else to_base b (n div b) @ [digit (n mod b)])"

declare to_base.simps [simp del]

definition show_int :: "int \<Rightarrow> string" where
  "show_int i = (if i < 0 then CHR ''-'' # to_base 10 (nat (- i)) else to_base 10 (nat i))"

text \<open>\<^verbatim>\<open>std::string::c_str()\<close> read as a C string: the bytes before the first NUL.\<close>

definition c_str :: "string \<Rightarrow> string" where
  "c_str t = takeWhile (\<lambda>c. c \<noteq> CHR 0x00) t"

datatype printf_arg = ArgInt "32 word" | ArgULong "64 word" | ArgStr string

fun StringPrintf :: "string \<Rightarrow> printf_arg list \<Rightarrow> string" where
  "StringPrintf [] args = []"
| "StringPrintf (c # fmt) args =
     (if c \<noteq> CHR ''%'' then c # StringPrintf fmt args
      else case fmt of
        [] \<Rightarrow> []
      | d # rest \<Rightarrow>
          if d = CHR ''d'' then
            (case args of ArgInt w # as \<Rightarrow> show_int (sint w) @ StringPrintf rest as | _ \<Rightarrow> [])
          else if d = CHR ''o'' then
            (case args of ArgInt w # as \<Rightarrow> to_base 8 (unat w) @ StringPrintf rest as | _ \<Rightarrow> [])
          else if d = CHR ''s'' then
            (case args of ArgStr t # as \<Rightarrow> c_str t @ StringPrintf rest as | _ \<Rightarrow> [])
          else if d = CHR ''l'' then
            (case rest of
               [] \<Rightarrow> []
             | u # rest' \<Rightarrow>
                 if u = CHR ''u'' then
                   (case args of
                      ArgULong w # as \<Rightarrow> to_base 10 (unat w) @ StringPrintf rest' as
                    | _ \<Rightarrow> [])
                 else [])
          else [])"

section \<open>currentUtcOffsetMinutes\<close>

text \<open>
  \<^verbatim>\<open>tm_gmtoff\<close> is narrowed to \<^verbatim>\<open>int32_t\<close>, divided by 60 as C divides (the quotient
  is truncated toward zero, which is \<open>sdiv\<close> on \<^typ>\<open>int\<close>), and the quotient is
  narrowed to \<^verbatim>\<open>int16_t\<close>.
\<close>

definition currentUtcOffsetMinutes :: "host \<Rightarrow> 16 word" where
  "currentUtcOffsetMinutes h =
     (let utcOffsetSeconds = (ucast (tm_gmtoff h) :: 32 word)
      in word_of_int (sint utcOffsetSeconds sdiv 60))"

section \<open>DoMount\<close>

text \<open>The mount flags of \<^verbatim>\<open>sys/mount.h\<close>; \<^verbatim>\<open>flags\<close> is an \<^verbatim>\<open>unsigned long\<close>.\<close>

definition MS_RDONLY :: "64 word" where "MS_RDONLY = 1"
definition MS_NOSUID :: "64 word" where "MS_NOSUID = 2"
definition MS_NODEV :: "64 word" where "MS_NODEV = 4"
definition MS_NOEXEC :: "64 word" where "MS_NOEXEC = 8"
definition MS_REMOUNT :: "64 word" where "MS_REMOUNT = 32"
definition MS_DIRSYNC :: "64 word" where "MS_DIRSYNC = 128"
definition MS_NOATIME :: "64 word" where "MS_NOATIME = 1024"

text \<open>The mode \<^verbatim>\<open>0755\<close> (an octal literal in the source).\<close>

definition mode_0755 :: nat where "mode_0755 = 7 * 64 + 5 * 8 + 5"

text \<open>Lines 140 to 144 of Vfat.cpp: the flags of the first mount attempt.\<close>

definition mount_flags :: "bool \<Rightarrow> bool \<Rightarrow> bool \<Rightarrow> 64 word" where
  "mount_flags ro remount executable =
     (let flags = MS_NODEV OR MS_NOSUID OR MS_DIRSYNC OR MS_NOATIME;
          flags = flags OR (if executable then 0 else MS_NOEXEC);
          flags = flags OR (if ro then MS_RDONLY else 0);
          flags = flags OR (if remount then MS_REMOUNT else 0)
      in flags)"

text \<open>
  Lines 146 to 175: the option string. The branch under \<^verbatim>\<open>if (true)\<close> is always
  taken. \<^verbatim>\<open>timeOffsetArg\<close> is an \<^verbatim>\<open>int16_t\<close>, promoted to \<^verbatim>\<open>int\<close> as a variadic
  argument.
\<close>

definition mount_data :: "host \<Rightarrow> 32 word \<Rightarrow> 32 word \<Rightarrow> 32 word \<Rightarrow> string" where
  "mount_data h ownerUid ownerGid permMask =
     (let mountData = StringPrintf ''utf8,uid=%d,gid=%d,fmask=%o,dmask=%o,shortname=mixed''
                        [ArgInt ownerUid, ArgInt ownerGid, ArgInt permMask, ArgInt permMask];
          timeOffsetArg = currentUtcOffsetMinutes h;
          mountData = mountData @ StringPrintf '',time_offset=%d'' [ArgInt (scast timeOffsetArg)]
      in mountData)"

definition DoMount :: "host \<Rightarrow> string \<Rightarrow> string \<Rightarrow> bool \<Rightarrow> bool \<Rightarrow> bool \<Rightarrow> 32 word \<Rightarrow> 32 word
    \<Rightarrow> 32 word \<Rightarrow> bool \<Rightarrow> proc_state \<Rightarrow> int \<times> proc_state" where
  "DoMount h source target ro remount executable ownerUid ownerGid permMask createLost s =
     (let c_source = c_str source;
          c_target = c_str target;
          flags = mount_flags ro remount executable;
          mountData = mount_data h ownerUid ownerGid permMask;
          r = mount h c_source c_target ''vfat'' flags (c_str mountData) s;
          r = (if fst r \<noteq> 0 \<and> errno (snd r) = EROFS
               then mount h c_source c_target ''vfat'' (flags OR MS_RDONLY) (c_str mountData) (snd r)
               else r);
          rc = fst r;
          s2 = (if rc = 0 \<and> createLost then
                  (let lost_path = StringPrintf ''%s/LOST.DIR'' [ArgStr c_target];
                       a = access h (c_str lost_path) F_OK (snd r)
                   in if fst a \<noteq> 0 then snd (mkdir h (c_str lost_path) mode_0755 (snd a))
                      else snd a)
                else snd r)
      in (rc, s2))"

section \<open>Format\<close>

definition Format :: "host \<Rightarrow> string \<Rightarrow> 64 word \<Rightarrow> proc_state \<Rightarrow> int \<times> proc_state" where
  "Format h source numSectors s =
     (let cmd = [kMkfsPath, ''-O'', ''android'', ''-A''];
          cmd = (if numSectors \<noteq> 0
                 then cmd @ [''-s'', StringPrintf ''%lu'' [ArgULong numSectors]]
                 else cmd);
          cmd = cmd @ [source];
          r = ForkExecvp h cmd s;
          rc = fst r;
          s1 = snd r
      in if rc < 0 then (- 1, s1\<lparr>errno := EIO\<rparr>)
         else if rc = 0 then (0, s1)
         else (- 1, s1\<lparr>errno := EIO\<rparr>))"

section \<open>Notions used in the statements\<close>

text \<open>The entry \<^verbatim>\<open>Check\<close> adds to the execution trace at every attempt.\<close>

definition fsck_call :: "host \<Rightarrow> string \<Rightarrow> exec_call" where
  "fsck_call h source =
     ExecTimeout [kFsckPath, ''-p'', ''-f'', ''-y'', source]
       (kUntrustedFsckSleepTime h) (sFsckUntrustedContext h)"

text \<open>The arguments \<^verbatim>\<open>DoMount\<close> hands to \<^verbatim>\<open>mount(2)\<close>, for a given flag word.\<close>

definition mount_attempt :: "host \<Rightarrow> string \<Rightarrow> string \<Rightarrow> 64 word \<Rightarrow> 32 word \<Rightarrow> 32 word
    \<Rightarrow> 32 word \<Rightarrow> mount_call" where
  "mount_attempt h source target flags ownerUid ownerGid permMask =
     \<lparr>mc_source = c_str source, mc_target = c_str target, mc_fstype = ''vfat'',
      mc_flags = flags, mc_data = c_str (mount_data h ownerUid ownerGid permMask)\<rparr>"

text \<open>
  The effect of lines 185 to 196 on a state in which the mount has succeeded: nothing
  when \<^verbatim>\<open>createLost\<close> is false or \<^verbatim>\<open>access\<close> finds the directory, else one
  \<^verbatim>\<open>mkdir\<close> call; \<^verbatim>\<open>errno\<close> is left by the last system call that failed.
\<close>

definition lost_dir :: "host \<Rightarrow> string \<Rightarrow> bool \<Rightarrow> proc_state \<Rightarrow> proc_state" where
  "lost_dir h target createLost s =
     (if createLost then
        (case access_sys h (c_str target @ ''/LOST.DIR'') F_OK of
           None \<Rightarrow> s
         | Some e \<Rightarrow>
             (case mkdir_sys h (c_str target @ ''/LOST.DIR'') mode_0755 of
                None \<Rightarrow>
                  s\<lparr>errno := e,
                    mkdir_log := mkdir_log s @ [(c_str target @ ''/LOST.DIR'', mode_0755)]\<rparr>
              | Some e' \<Rightarrow>
                  s\<lparr>errno := e',
                    mkdir_log := mkdir_log s @ [(c_str target @ ''/LOST.DIR'', mode_0755)]\<rparr>))
      else s)"

text \<open>
  A sample host and a sample state, for concrete runs. The medium of the sample host
  is read-only (a mount without \<^verbatim>\<open>MS_RDONLY\<close> fails with \<^verbatim>\<open>EROFS\<close>), the target has
  no \<^verbatim>\<open>LOST.DIR\<close> (\<^verbatim>\<open>access\<close> fails with \<^verbatim>\<open>ENOENT\<close>, which is 2), both tools are
  executable, every tool run exits with status 0, and local time is five hours behind
  UTC.
\<close>

definition sample_host :: host where
  "sample_host =
     \<lparr>exec_status = (\<lambda>n. 0),
      kUntrustedFsckSleepTime = 45,
      sFsckUntrustedContext = ''u:r:fsck_untrusted:s0'',
      fs_supported = (\<lambda>fsType. fsType = ''vfat''),
      access_sys = (\<lambda>path amode. if path = ''/mnt/media_rw/sd/LOST.DIR'' then Some 2 else None),
      mount_sys = (\<lambda>n c. if mc_flags c AND MS_RDONLY = 0 then Some EROFS else None),
      mkdir_sys = (\<lambda>path mode. None),
      tm_gmtoff = - 18000\<rparr>"

definition sample_state :: proc_state where
  "sample_state = \<lparr>errno = 0, exec_log = [], mount_log = [], mkdir_log = []\<rparr>"

section \<open>Facts about Check\<close>

text \<open>
  With \<^verbatim>\<open>pass\<close> between 1 and 4, the loop makes at least one and at most \<open>5 - pass\<close>
  attempts, each with the same command.
\<close>

lemma Check_loop_log:
  "1 \<le> pass \<Longrightarrow> pass \<le> 4 \<Longrightarrow>
   \<exists>k. 1 \<le> k \<and> int k \<le> 5 - pass \<and>
       exec_log (snd (Check_loop h source pass s)) =
         exec_log s @ replicate k (fsck_call h source)"
proof (induction h source pass s rule: Check_loop.induct)
  case (1 h source pass s)
  let ?s1 = "snd (ForkExecvpTimeout h [kFsckPath, ''-p'', ''-f'', ''-y'', source]
    (kUntrustedFsckSleepTime h) (sFsckUntrustedContext h) s)"
  let ?rc = "exec_status h (length (exec_log s))"
  have log1: "exec_log ?s1 = exec_log s @ [fsck_call h source]"
    by (simp add: ForkExecvpTimeout_def fsck_call_def)
  show ?case
  proof (cases "?rc = 4 \<and> pass \<le> 3")
    case True
    then have eq: "Check_loop h source pass s = Check_loop h source (pass + 1) ?s1"
      by (subst Check_loop.simps) (simp add: Let_def ForkExecvpTimeout_def)
    from True "1.prems" have "1 \<le> pass + 1" "pass + 1 \<le> 4" by auto
    with "1.IH" [OF refl refl refl refl] True
    obtain k where k: "1 \<le> k" "int k \<le> 5 - (pass + 1)"
      "exec_log (snd (Check_loop h source (pass + 1) ?s1)) =
         exec_log ?s1 @ replicate k (fsck_call h source)"
      by (auto simp: ForkExecvpTimeout_def)
    from k log1 eq show ?thesis
      by (intro exI [of _ "Suc k"]) (simp add: replicate_app_Cons_same)
  next
    case False
    then have "exec_log (snd (Check_loop h source pass s)) = exec_log ?s1"
      by (subst Check_loop.simps) (auto simp add: Let_def ForkExecvpTimeout_def)
    with log1 "1.prems" show ?thesis
      by (intro exI [of _ 1]) simp
  qed
qed

text \<open>
  The first attempt decides the call unless its status is 4. The row for status 1
  shows that \<^verbatim>\<open>errno\<close> keeps the value it had before the call.
\<close>

lemma Check_first_status:
  assumes "exec_status h (length (exec_log s)) = rc" and "rc \<noteq> 4"
  shows "Check h source s =
     (if rc = 0 then 0 else - 1,
      s\<lparr>errno :=
           (if rc < 0 then EIO
            else if rc = 0 \<or> rc = 1 then errno s
            else if rc = 2 \<or> rc = 8 then ENODATA
            else if rc = ETIMEDOUT then ETIMEDOUT
            else EIO),
        exec_log := exec_log s @ [fsck_call h source]\<rparr>)"
  using assms
  by (simp add: Check_def Check_loop.simps [of _ _ 1] ForkExecvpTimeout_def Let_def
      fsck_call_def ETIMEDOUT_def)

lemma Check_all_dirty:
  assumes "\<forall>i<4. exec_status h (length (exec_log s) + i) = 4"
  shows "Check h source s =
     (- 1, s\<lparr>errno := EIO, exec_log := exec_log s @ replicate 4 (fsck_call h source)\<rparr>)"
proof -
  have a: "exec_status h (length (exec_log s)) = 4"
    "exec_status h (Suc (length (exec_log s))) = 4"
    "exec_status h (Suc (Suc (length (exec_log s)))) = 4"
    "exec_status h (Suc (Suc (Suc (length (exec_log s))))) = 4"
    using assms [rule_format, of 0] assms [rule_format, of 1]
      assms [rule_format, of 2] assms [rule_format, of 3]
    by (simp_all add: numeral_2_eq_2 numeral_3_eq_3)
  show ?thesis
    by (simp add: Check_def Check_loop.simps [of _ _ 1] Check_loop.simps [of _ _ 2]
        Check_loop.simps [of _ _ 3] Check_loop.simps [of _ _ 4] ForkExecvpTimeout_def
        Let_def a fsck_call_def numeral_eq_Suc)
qed

section \<open>The claims about Check\<close>

text \<open>
  C3. For every sequence of results of the external tool, \<^verbatim>\<open>Check\<close> runs the tool at
  least once and at most four times, always with the same command. When the first four
  results are all the dirty status 4, it stops after the fourth run and fails with
  \<^verbatim>\<open>errno\<close> set to \<^verbatim>\<open>EIO\<close>. When the first result is 0 it returns 0 after exactly one
  run.
\<close>

theorem Check_attempts:
  "(\<exists>k. 1 \<le> k \<and> k \<le> 4 \<and>
        exec_log (snd (Check h source s)) = exec_log s @ replicate k (fsck_call h source))
   \<and> ((\<forall>i<4. exec_status h (length (exec_log s) + i) = 4) \<longrightarrow>
        Check h source s =
          (- 1, s\<lparr>errno := EIO,
                  exec_log := exec_log s @ replicate 4 (fsck_call h source)\<rparr>))
   \<and> (exec_status h (length (exec_log s)) = 0 \<longrightarrow>
        Check h source s = (0, s\<lparr>exec_log := exec_log s @ [fsck_call h source]\<rparr>))"
proof (intro conjI impI)
  from Check_loop_log [of 1 h source s]
  obtain k where "1 \<le> k" "int k \<le> 5 - 1"
    "exec_log (snd (Check_loop h source 1 s)) = exec_log s @ replicate k (fsck_call h source)"
    by auto
  then show "\<exists>k. 1 \<le> k \<and> k \<le> 4 \<and>
      exec_log (snd (Check h source s)) = exec_log s @ replicate k (fsck_call h source)"
    by (intro exI [of _ k]) (simp add: Check_def)
next
  assume "\<forall>i<4. exec_status h (length (exec_log s) + i) = 4"
  then show "Check h source s =
      (- 1, s\<lparr>errno := EIO, exec_log := exec_log s @ replicate 4 (fsck_call h source)\<rparr>)"
    by (rule Check_all_dirty)
next
  assume "exec_status h (length (exec_log s)) = 0"
  then show "Check h source s = (0, s\<lparr>exec_log := exec_log s @ [fsck_call h source]\<rparr>)"
    by (simp add: Check_first_status)
qed

theorem Check_attempts_witness:
  "fst (Check (sample_host\<lparr>exec_status := (\<lambda>n. 4)\<rparr>) ''/dev/block/vold/public:8,1''
          sample_state) = - 1
   \<and> errno (snd (Check (sample_host\<lparr>exec_status := (\<lambda>n. 4)\<rparr>) ''/dev/block/vold/public:8,1''
          sample_state)) = 5
   \<and> length (exec_log (snd (Check (sample_host\<lparr>exec_status := (\<lambda>n. 4)\<rparr>)
          ''/dev/block/vold/public:8,1'' sample_state))) = 4
   \<and> fst (Check sample_host ''/dev/block/vold/public:8,1'' sample_state) = 0
   \<and> length (exec_log (snd (Check sample_host ''/dev/block/vold/public:8,1'' sample_state))) = 1"
  using
    Check_attempts [of "sample_host\<lparr>exec_status := (\<lambda>n. 4)\<rparr>" "''/dev/block/vold/public:8,1''"
      sample_state]
    Check_attempts [of sample_host "''/dev/block/vold/public:8,1''" sample_state]
  by (simp add: sample_host_def sample_state_def EIO_def)

text \<open>
  C1. The claim asks that every failing outcome of \<^verbatim>\<open>Check\<close> sets \<^verbatim>\<open>errno\<close> to the
  code that matches it, \<^verbatim>\<open>EIO\<close> for exit status 1. The branch for status 1 returns -1
  and assigns nothing: on a host whose tool exits with status 1, called with \<^verbatim>\<open>errno\<close>
  equal to 0, \<^verbatim>\<open>Check\<close> returns -1 and \<^verbatim>\<open>errno\<close> is still 0, not \<^verbatim>\<open>EIO\<close>. (The other
  rows of the table hold; see \<open>Check_first_status\<close>.)
\<close>

theorem Check_status_1_keeps_errno:
  "fst (Check (sample_host\<lparr>exec_status := (\<lambda>n. 1)\<rparr>) ''/dev/block/vold/public:8,1''
          sample_state) = - 1
   \<and> errno (snd (Check (sample_host\<lparr>exec_status := (\<lambda>n. 1)\<rparr>) ''/dev/block/vold/public:8,1''
          sample_state)) = 0
   \<and> errno (snd (Check (sample_host\<lparr>exec_status := (\<lambda>n. 1)\<rparr>) ''/dev/block/vold/public:8,1''
          sample_state)) \<noteq> EIO"
  by (simp add: Check_def Check_loop.simps [of _ _ 1] ForkExecvpTimeout_def Let_def
      sample_host_def sample_state_def EIO_def)



section \<open>Facts about formatted output\<close>

lemma digit_in: "d < 10 \<Longrightarrow> digit d \<in> set ''0123456789''"
  unfolding digit_def by (rule nth_mem) simp

lemma digit_not_nul: "d < 10 \<Longrightarrow> CHR 0x00 \<noteq> digit d"
  using digit_in [of d] by auto

lemma to_base_no_nul: "2 \<le> b \<Longrightarrow> b \<le> 10 \<Longrightarrow> CHR 0x00 \<notin> set (to_base b n)"
proof (induction b n rule: to_base.induct)
  case (1 b n)
  show ?case
  proof (cases "n < b")
    case True
    with "1.prems" have "n < 10" by simp
    with True "1.prems" show ?thesis
      by (subst to_base.simps) (simp add: digit_not_nul)
  next
    case False
    with "1.prems" have IH: "CHR 0x00 \<notin> set (to_base b (n div b))"
      using "1.IH" by simp
    from "1.prems" have "n mod b < b" by simp
    with "1.prems" have "n mod b < 10" by linarith
    with False "1.prems" IH show ?thesis
      by (subst to_base.simps) (simp add: digit_not_nul)
  qed
qed

lemma show_int_no_nul: "CHR 0x00 \<notin> set (show_int i)"
  by (simp add: show_int_def to_base_no_nul)

lemma c_str_no_nul: "CHR 0x00 \<notin> set t \<Longrightarrow> c_str t = t"
  unfolding c_str_def by (rule takeWhile_eq_all_conv [THEN iffD2]) auto

lemma c_str_idem: "c_str (c_str t) = c_str t"
  by (simp add: c_str_def)

lemma lost_path: "StringPrintf ''%s/LOST.DIR'' [ArgStr (c_str t)] = c_str t @ ''/LOST.DIR''"
  by (simp add: c_str_idem)

lemma c_str_lost_path: "c_str (c_str t @ ''/LOST.DIR'') = c_str t @ ''/LOST.DIR''"
proof (rule c_str_no_nul)
  have "CHR 0x00 \<notin> set (c_str t)"
    unfolding c_str_def by (auto dest: set_takeWhileD)
  then show "CHR 0x00 \<notin> set (c_str t @ ''/LOST.DIR'')"
    by simp
qed

lemma sint_scast_16_32: "sint (scast (w :: 16 word) :: 32 word) = sint w"
  by (rule sint_up_scast) (simp add: is_up)

lemma mount_data_eq:
  "mount_data h ownerUid ownerGid permMask =
     ''utf8,uid='' @ show_int (sint ownerUid) @ '',gid='' @ show_int (sint ownerGid) @
     '',fmask='' @ to_base 8 (unat permMask) @ '',dmask='' @ to_base 8 (unat permMask) @
     '',shortname=mixed,time_offset='' @ show_int (sint (currentUtcOffsetMinutes h))"
  by (simp add: mount_data_def Let_def sint_scast_16_32)

lemma c_str_mount_data:
  "c_str (mount_data h ownerUid ownerGid permMask) = mount_data h ownerUid ownerGid permMask"
  unfolding mount_data_eq
  by (rule c_str_no_nul) (simp add: show_int_no_nul to_base_no_nul)

section \<open>Facts about the offset\<close>

lemma narrow_64_32:
  fixes g :: "64 word"
  assumes "- (2 ^ 31) \<le> sint g" "sint g < 2 ^ 31"
  shows "sint (ucast g :: 32 word) = sint g"
proof -
  have "(ucast :: 64 word \<Rightarrow> 32 word) = scast"
    by (rule down_cast_same) (simp add: is_down)
  then have "sint (ucast g :: 32 word) = signed_take_bit 31 (sint g)"
    by (simp add: signed_scast_eq)
  also have "\<dots> = sint g"
    using assms by (simp add: signed_take_bit_int_eq_self)
  finally show ?thesis .
qed

lemma narrow_16:
  fixes q :: int
  assumes "- (2 ^ 15) \<le> q" "q < 2 ^ 15"
  shows "sint (word_of_int q :: 16 word) = q"
  using assms by (simp add: sint_sbintrunc' signed_take_bit_int_eq_self)

lemma trunc_div_bound:
  fixes x :: int
  assumes "- 1966080 < x" "x < 1966080"
  shows "- 32768 \<le> sgn x * (\<bar>x\<bar> div 60)" "sgn x * (\<bar>x\<bar> div 60) < 32768"
proof -
  from assms have "\<bar>x\<bar> div 60 < 32768" by linarith
  moreover have "0 \<le> \<bar>x\<bar> div 60" by simp
  ultimately show "- 32768 \<le> sgn x * (\<bar>x\<bar> div 60)" "sgn x * (\<bar>x\<bar> div 60) < 32768"
    by (cases "x < 0"; cases "x = 0"; simp)+
qed

section \<open>The claim about currentUtcOffsetMinutes\<close>

text \<open>
  C10. \<^verbatim>\<open>currentUtcOffsetMinutes\<close> returns the seconds-east-of-UTC field of the current
  local time divided by 60, the quotient truncated toward zero (its absolute value is
  \<open>\<bar>seconds\<bar> div 60\<close>, its sign that of the field), as a signed 16-bit integer. The
  function is total: it has no failure path. The bound on the field is that the
  quotient fits 16 bits, which holds for every offset below 32768 minutes (more than 22
  days) in either direction. An offset of -90 seconds gives -1 minute.
\<close>

theorem currentUtcOffsetMinutes_truncates:
  assumes "- 1966080 < sint (tm_gmtoff h)" and "sint (tm_gmtoff h) < 1966080"
  shows "sint (currentUtcOffsetMinutes h) =
    sgn (sint (tm_gmtoff h)) * (\<bar>sint (tm_gmtoff h)\<bar> div 60)"
proof -
  let ?g = "tm_gmtoff h"
  from assms have "sint (ucast ?g :: 32 word) = sint ?g"
    by (intro narrow_64_32) simp_all
  then have "sint (ucast ?g :: 32 word) sdiv 60 = sgn (sint ?g) * (\<bar>sint ?g\<bar> div 60)"
    by (simp add: signed_divide_int_def)
  moreover have "sint (word_of_int (sgn (sint ?g) * (\<bar>sint ?g\<bar> div 60)) :: 16 word) =
      sgn (sint ?g) * (\<bar>sint ?g\<bar> div 60)"
    using trunc_div_bound [OF assms] by (intro narrow_16) simp_all
  ultimately show ?thesis
    by (simp add: currentUtcOffsetMinutes_def Let_def)
qed

theorem currentUtcOffsetMinutes_truncates_witness:
  "sint (currentUtcOffsetMinutes (sample_host\<lparr>tm_gmtoff := - 90\<rparr>)) = - 1
   \<and> sint (currentUtcOffsetMinutes (sample_host\<lparr>tm_gmtoff := 90\<rparr>)) = 1
   \<and> sint (currentUtcOffsetMinutes sample_host) = - 300"
  using currentUtcOffsetMinutes_truncates [of "sample_host\<lparr>tm_gmtoff := - 90\<rparr>"]
    currentUtcOffsetMinutes_truncates [of "sample_host\<lparr>tm_gmtoff := 90\<rparr>"]
    currentUtcOffsetMinutes_truncates [of sample_host]
  by (simp add: sample_host_def)

section \<open>Facts about DoMount\<close>

lemma mount_eq:
  "mount h src tgt fstype flags data s =
     (case mount_sys h (length (mount_log s))
        \<lparr>mc_source = src, mc_target = tgt, mc_fstype = fstype, mc_flags = flags, mc_data = data\<rparr> of
        None \<Rightarrow>
          (0, s\<lparr>mount_log := mount_log s @
                [\<lparr>mc_source = src, mc_target = tgt, mc_fstype = fstype, mc_flags = flags,
                  mc_data = data\<rparr>]\<rparr>)
      | Some e \<Rightarrow>
          (- 1, s\<lparr>mount_log := mount_log s @
                  [\<lparr>mc_source = src, mc_target = tgt, mc_fstype = fstype, mc_flags = flags,
                    mc_data = data\<rparr>],
                  errno := e\<rparr>))"
  by (simp add: mount_def Let_def)

text \<open>\<^verbatim>\<open>DoMount\<close> by the answers of the host, one case per path through the function.\<close>

lemma DoMount_eq:
  fixes h source target ro remount executable ownerUid ownerGid permMask createLost s
  defines "c1 \<equiv> mount_attempt h source target (mount_flags ro remount executable)
    ownerUid ownerGid permMask"
  defines "c2 \<equiv> mount_attempt h source target (mount_flags ro remount executable OR MS_RDONLY)
    ownerUid ownerGid permMask"
  shows "DoMount h source target ro remount executable ownerUid ownerGid permMask createLost s =
     (case mount_sys h (length (mount_log s)) c1 of
        None \<Rightarrow> (0, lost_dir h target createLost (s\<lparr>mount_log := mount_log s @ [c1]\<rparr>))
      | Some e \<Rightarrow>
          if e = EROFS then
            (case mount_sys h (Suc (length (mount_log s))) c2 of
               None \<Rightarrow>
                 (0, lost_dir h target createLost
                       (s\<lparr>mount_log := mount_log s @ [c1, c2], errno := EROFS\<rparr>))
             | Some e' \<Rightarrow> (- 1, s\<lparr>mount_log := mount_log s @ [c1, c2], errno := e'\<rparr>))
          else (- 1, s\<lparr>mount_log := mount_log s @ [c1], errno := e\<rparr>))"
proof (cases "mount_sys h (length (mount_log s)) c1")
  case None
  then show ?thesis
    unfolding DoMount_def c1_def c2_def mount_attempt_def lost_path
    by (simp add: mount_eq Let_def lost_dir_def access_def mkdir_def c_str_idem
        c_str_lost_path split: option.splits)
next
  case first: (Some e)
  show ?thesis
  proof (cases "e = EROFS")
    case False
    with first show ?thesis
      unfolding DoMount_def c1_def c2_def mount_attempt_def lost_path
      by (simp add: mount_eq Let_def)
  next
    case True
    show ?thesis
    proof (cases "mount_sys h (Suc (length (mount_log s))) c2")
      case None
      with first True show ?thesis
        unfolding DoMount_def c1_def c2_def mount_attempt_def lost_path
        by (simp add: mount_eq Let_def lost_dir_def access_def mkdir_def c_str_idem
            c_str_lost_path split: option.splits)
    next
      case (Some e')
      with first True show ?thesis
        unfolding DoMount_def c1_def c2_def mount_attempt_def lost_path
        by (simp add: mount_eq Let_def)
    qed
  qed
qed

lemma mount_log_lost_dir: "mount_log (lost_dir h target createLost s) = mount_log s"
  by (simp add: lost_dir_def split: option.splits)

lemma mkdir_log_lost_dir:
  "mkdir_log (lost_dir h target createLost s) =
     mkdir_log s @
       (if createLost \<and> access_sys h (c_str target @ ''/LOST.DIR'') F_OK \<noteq> None
        then [(c_str target @ ''/LOST.DIR'', mode_0755)] else [])"
  by (simp add: lost_dir_def split: option.splits)

lemma DoMount_mount_log:
  "mount_log (snd (DoMount h source target ro remount executable ownerUid ownerGid permMask
       createLost s)) =
     mount_log s @
       (if mount_sys h (length (mount_log s))
             (mount_attempt h source target (mount_flags ro remount executable)
                ownerUid ownerGid permMask) = Some EROFS
        then [mount_attempt h source target (mount_flags ro remount executable)
                ownerUid ownerGid permMask,
              mount_attempt h source target (mount_flags ro remount executable OR MS_RDONLY)
                ownerUid ownerGid permMask]
        else [mount_attempt h source target (mount_flags ro remount executable)
                ownerUid ownerGid permMask])"
  by (simp add: DoMount_eq mount_log_lost_dir split: option.splits)

lemma DoMount_first_call:
  "mount_log (snd (DoMount h source target ro remount executable ownerUid ownerGid permMask
       createLost s)) ! length (mount_log s) =
     mount_attempt h source target (mount_flags ro remount executable) ownerUid ownerGid permMask"
  by (simp add: DoMount_mount_log nth_append)

lemma DoMount_result:
  "fst (DoMount h source target ro remount executable ownerUid ownerGid permMask createLost s) =
     (case mount_sys h (length (mount_log s))
             (mount_attempt h source target (mount_flags ro remount executable)
                ownerUid ownerGid permMask) of
        None \<Rightarrow> 0
      | Some e \<Rightarrow>
          if e = EROFS then
            (case mount_sys h (Suc (length (mount_log s)))
                    (mount_attempt h source target
                       (mount_flags ro remount executable OR MS_RDONLY)
                       ownerUid ownerGid permMask) of
               None \<Rightarrow> 0
             | Some e' \<Rightarrow> - 1)
          else - 1)"
  by (simp add: DoMount_eq split: option.splits)

lemma DoMount_mkdir_log:
  "mkdir_log (snd (DoMount h source target ro remount executable ownerUid ownerGid permMask
       createLost s)) =
     mkdir_log s @
       (if fst (DoMount h source target ro remount executable ownerUid ownerGid permMask
                  createLost s) = 0
           \<and> createLost \<and> access_sys h (c_str target @ ''/LOST.DIR'') F_OK \<noteq> None
        then [(c_str target @ ''/LOST.DIR'', mode_0755)] else [])"
  by (auto simp add: DoMount_eq mkdir_log_lost_dir split: option.splits)

lemma mount_attempt_mkdir_sys:
  "mount_attempt (h\<lparr>mkdir_sys := m\<rparr>) source target flags ownerUid ownerGid permMask =
   mount_attempt h source target flags ownerUid ownerGid permMask"
  by (simp add: mount_attempt_def mount_data_def currentUtcOffsetMinutes_def)

lemma flag_values:
  "MS_RDONLY = 1" "MS_NOSUID = 2" "MS_NODEV = 4" "MS_NOEXEC = 8" "MS_REMOUNT = 32"
  "MS_DIRSYNC = 128" "MS_NOATIME = 1024"
  by (simp_all add: MS_RDONLY_def MS_NOSUID_def MS_NODEV_def MS_NOEXEC_def MS_REMOUNT_def
      MS_DIRSYNC_def MS_NOATIME_def)

lemma mount_flags_bits:
  "mount_flags ro remount executable AND MS_NODEV = MS_NODEV"
  "mount_flags ro remount executable AND MS_NOSUID = MS_NOSUID"
  "mount_flags ro remount executable AND MS_DIRSYNC = MS_DIRSYNC"
  "mount_flags ro remount executable AND MS_NOATIME = MS_NOATIME"
  "(mount_flags ro remount executable AND MS_NOEXEC = MS_NOEXEC) = (\<not> executable)"
  "(mount_flags ro remount executable AND MS_RDONLY = MS_RDONLY) = ro"
  "(mount_flags ro remount executable AND MS_REMOUNT = MS_REMOUNT) = remount"
  "mount_flags ro remount executable AND
     NOT (MS_NODEV OR MS_NOSUID OR MS_DIRSYNC OR MS_NOATIME OR MS_NOEXEC OR MS_RDONLY OR MS_REMOUNT) = 0"
  by (cases ro; cases remount; cases executable; simp add: mount_flags_def flag_values)+

lemma sample_numbers:
  "show_int 1000 = ''1000''" "to_base 8 7 = ''7''" "show_int (- 300) = ''-300''"
  "to_base 10 2048 = ''2048''"
  by (simp_all add: show_int_def to_base.simps digit_def)

lemma sample_offset: "sint (currentUtcOffsetMinutes sample_host) = - 300"
  by code_simp

section \<open>The claims about DoMount\<close>

text \<open>
  C2 (as amended). The option string \<^verbatim>\<open>DoMount\<close> hands to its first \<^verbatim>\<open>mount(2)\<close> call is
  exactly \<^verbatim>\<open>utf8,uid=<uid>,gid=<gid>,fmask=<mask>,dmask=<mask>,shortname=mixed,time_offset=<minutes>\<close>
  where uid, gid and the offset are printed in signed decimal and both masks are the one
  \<^verbatim>\<open>permMask\<close> printed in octal with no leading zero. For uid 1000, gid 1000, mask 0007
  and an offset of -300 minutes it is
  \<^verbatim>\<open>utf8,uid=1000,gid=1000,fmask=7,dmask=7,shortname=mixed,time_offset=-300\<close>.
\<close>

theorem DoMount_option_string:
  "mc_data (mount_log (snd (DoMount h source target ro remount executable ownerUid ownerGid
       permMask createLost s)) ! length (mount_log s)) =
     ''utf8,uid='' @ show_int (sint ownerUid) @ '',gid='' @ show_int (sint ownerGid) @
     '',fmask='' @ to_base 8 (unat permMask) @ '',dmask='' @ to_base 8 (unat permMask) @
     '',shortname=mixed,time_offset='' @ show_int (sint (currentUtcOffsetMinutes h))
   \<and> (sint (currentUtcOffsetMinutes h) = - 300 \<longrightarrow>
        mc_data (mount_log (snd (DoMount h source target ro remount executable 1000 1000 7
          createLost s)) ! length (mount_log s)) =
        ''utf8,uid=1000,gid=1000,fmask=7,dmask=7,shortname=mixed,time_offset=-300'')"
proof -
  have "mc_data (mount_log (snd (DoMount h source target ro remount executable uid gid pm
       createLost s)) ! length (mount_log s)) = mount_data h uid gid pm" for uid gid pm
    by (simp add: DoMount_first_call mount_attempt_def c_str_mount_data)
  then show ?thesis
    by (simp add: mount_data_eq sample_numbers)
qed

theorem DoMount_option_string_witness:
  "mc_data (mount_log (snd (DoMount sample_host ''/dev/block/vold/public:8,1''
       ''/mnt/media_rw/sd'' False False False 1000 1000 7 True sample_state)) ! 0) =
     ''utf8,uid=1000,gid=1000,fmask=7,dmask=7,shortname=mixed,time_offset=-300''"
  using DoMount_option_string [of sample_host "''/dev/block/vold/public:8,1''"
      "''/mnt/media_rw/sd''" False False False 1000 1000 7 True sample_state,
      THEN conjunct2, rule_format, OF sample_offset]
  by (simp add: sample_state_def)

text \<open>
  The string with \<^verbatim>\<open>fmask=07,dmask=07\<close> is not what the code builds for these inputs:
  \<^verbatim>\<open>%o\<close> prints 7 as a single digit.
\<close>

theorem DoMount_option_string_counterexample:
  "sint (currentUtcOffsetMinutes sample_host) = - 300
   \<and> mc_data (mount_log (snd (DoMount sample_host ''/dev/block/vold/public:8,1''
       ''/mnt/media_rw/sd'' False False False 1000 1000 7 True sample_state)) ! 0) \<noteq>
     ''utf8,uid=1000,gid=1000,fmask=07,dmask=07,shortname=mixed,time_offset=-300''"
proof -
  have "mc_data (mount_log (snd (DoMount sample_host ''/dev/block/vold/public:8,1''
       ''/mnt/media_rw/sd'' False False False 1000 1000 7 True sample_state)) ! 0) =
     mount_data sample_host 1000 1000 7"
    using DoMount_first_call [of sample_host "''/dev/block/vold/public:8,1''"
      "''/mnt/media_rw/sd''" False False False 1000 1000 7 True sample_state]
    by (simp add: mount_attempt_def c_str_mount_data sample_state_def)
  then show ?thesis
    by (simp add: mount_data_eq sample_numbers sample_offset)
qed


text \<open>
  C4. Let \<open>c1\<close> be the first mount call of \<^verbatim>\<open>DoMount\<close> and \<open>c2\<close> the same call with
  \<^verbatim>\<open>MS_RDONLY\<close> added to the flags (same source, target, type and option string). If
  the first call fails with \<^verbatim>\<open>EROFS\<close>, \<^verbatim>\<open>DoMount\<close> makes exactly one more mount call,
  \<open>c2\<close>, and returns 0 exactly when that call succeeds (and -1 otherwise). If the first
  call succeeds or fails with any other error, it is the only mount call, and the result
  is 0 or -1 accordingly.
\<close>

theorem DoMount_read_only_retry:
  "let c1 = mount_attempt h source target (mount_flags ro remount executable)
              ownerUid ownerGid permMask;
       c2 = mount_attempt h source target (mount_flags ro remount executable OR MS_RDONLY)
              ownerUid ownerGid permMask;
       n = length (mount_log s);
       r = DoMount h source target ro remount executable ownerUid ownerGid permMask createLost s
   in (mount_sys h n c1 = Some EROFS \<longrightarrow>
         mount_log (snd r) = mount_log s @ [c1, c2]
         \<and> (fst r = 0) = (mount_sys h (Suc n) c2 = None)
         \<and> (fst r = 0 \<or> fst r = - 1))
    \<and> (mount_sys h n c1 \<noteq> Some EROFS \<longrightarrow>
         mount_log (snd r) = mount_log s @ [c1]
         \<and> fst r = (if mount_sys h n c1 = None then 0 else - 1))
    \<and> mc_source c2 = mc_source c1 \<and> mc_target c2 = mc_target c1
    \<and> mc_fstype c2 = mc_fstype c1 \<and> mc_data c2 = mc_data c1
    \<and> mc_flags c2 = mc_flags c1 OR MS_RDONLY"
  unfolding Let_def
  by (auto simp add: DoMount_mount_log DoMount_result mount_attempt_def split: option.splits)

theorem DoMount_read_only_retry_witness:
  "mount_sys sample_host 0
     (mount_attempt sample_host ''/dev/block/vold/public:8,1'' ''/mnt/media_rw/sd''
        (mount_flags False False False) 1000 1000 7) = Some EROFS
   \<and> fst (DoMount sample_host ''/dev/block/vold/public:8,1'' ''/mnt/media_rw/sd''
          False False False 1000 1000 7 True sample_state) = 0
   \<and> mount_log (snd (DoMount sample_host ''/dev/block/vold/public:8,1'' ''/mnt/media_rw/sd''
          False False False 1000 1000 7 True sample_state)) =
       [mount_attempt sample_host ''/dev/block/vold/public:8,1'' ''/mnt/media_rw/sd''
          (mount_flags False False False) 1000 1000 7,
        mount_attempt sample_host ''/dev/block/vold/public:8,1'' ''/mnt/media_rw/sd''
          (mount_flags False False False OR MS_RDONLY) 1000 1000 7]
   \<and> fst (DoMount (sample_host\<lparr>mount_sys := (\<lambda>n c. Some 22)\<rparr>) ''/dev/block/vold/public:8,1''
          ''/mnt/media_rw/sd'' False False False 1000 1000 7 True sample_state) = - 1
   \<and> length (mount_log (snd (DoMount (sample_host\<lparr>mount_sys := (\<lambda>n c. Some 22)\<rparr>)
          ''/dev/block/vold/public:8,1'' ''/mnt/media_rw/sd'' False False False 1000 1000 7 True
          sample_state))) = 1
   \<and> fst (DoMount sample_host ''/dev/block/vold/public:8,1'' ''/mnt/media_rw/sd''
          True False False 1000 1000 7 True sample_state) = 0
   \<and> length (mount_log (snd (DoMount sample_host ''/dev/block/vold/public:8,1''
          ''/mnt/media_rw/sd'' True False False 1000 1000 7 True sample_state))) = 1"
proof -
  have first: "mount_sys sample_host 0
     (mount_attempt sample_host ''/dev/block/vold/public:8,1'' ''/mnt/media_rw/sd''
        (mount_flags False False False) 1000 1000 7) = Some EROFS"
    by (simp add: sample_host_def mount_attempt_def mount_flags_def flag_values)
  have second: "mount_sys sample_host (Suc 0)
     (mount_attempt sample_host ''/dev/block/vold/public:8,1'' ''/mnt/media_rw/sd''
        (mount_flags False False False OR MS_RDONLY) 1000 1000 7) = None"
    by (simp add: sample_host_def mount_attempt_def mount_flags_def flag_values)
  have other: "mount_sys (sample_host\<lparr>mount_sys := (\<lambda>n c. Some 22)\<rparr>) 0 c = Some 22"
    "(22 :: int) \<noteq> EROFS" for c
    by (simp_all add: EROFS_def)
  have ro: "mount_sys sample_host 0
     (mount_attempt sample_host ''/dev/block/vold/public:8,1'' ''/mnt/media_rw/sd''
        (mount_flags True False False) 1000 1000 7) = None"
    by (simp add: sample_host_def mount_attempt_def mount_flags_def flag_values)
  have empty: "mount_log sample_state = []"
    by (simp add: sample_state_def)
  from first second other ro empty
    DoMount_read_only_retry [of sample_host "''/dev/block/vold/public:8,1''"
      "''/mnt/media_rw/sd''" False False False 1000 1000 7 sample_state True]
    DoMount_read_only_retry [of "sample_host\<lparr>mount_sys := (\<lambda>n c. Some 22)\<rparr>"
      "''/dev/block/vold/public:8,1''" "''/mnt/media_rw/sd''" False False False 1000 1000 7
      sample_state True]
    DoMount_read_only_retry [of sample_host "''/dev/block/vold/public:8,1''"
      "''/mnt/media_rw/sd''" True False False 1000 1000 7 sample_state True]
  show ?thesis
    by (simp add: Let_def)
qed

text \<open>
  C5. Let \<open>c1\<close> be the first mount call of \<^verbatim>\<open>DoMount\<close> and \<open>c2\<close> its read-only retry.
  The mount succeeded when the kernel accepts \<open>c1\<close>, or answers \<open>c1\<close> with \<^verbatim>\<open>EROFS\<close>
  and accepts \<open>c2\<close>. \<^verbatim>\<open>DoMount\<close> makes these mount calls, and it calls \<^verbatim>\<open>mkdir\<close> at
  most once, on \<^verbatim>\<open><target>/LOST.DIR\<close> with mode 0755 (493): exactly when the mount
  succeeded, \<^verbatim>\<open>createLost\<close> is true and \<^verbatim>\<open>access\<close> does not find the directory. When
  the directory exists, when \<^verbatim>\<open>createLost\<close> is false or when the mount failed, no
  \<^verbatim>\<open>mkdir\<close> is made. The result is 0 exactly when the mount succeeded and -1 otherwise,
  and it does not depend on what \<^verbatim>\<open>mkdir\<close> answers, so a failed creation leaves it 0.
\<close>

theorem DoMount_lost_dir:
  "let c1 = mount_attempt h source target (mount_flags ro remount executable)
              ownerUid ownerGid permMask;
       c2 = mount_attempt h source target (mount_flags ro remount executable OR MS_RDONLY)
              ownerUid ownerGid permMask;
       n = length (mount_log s);
       mounted = (mount_sys h n c1 = None
                  \<or> mount_sys h n c1 = Some EROFS \<and> mount_sys h (Suc n) c2 = None);
       r = DoMount h source target ro remount executable ownerUid ownerGid permMask createLost s;
       lost_path = c_str target @ ''/LOST.DIR''
   in mkdir_log (snd r) =
        mkdir_log s @
          (if mounted \<and> createLost \<and> access_sys h lost_path F_OK \<noteq> None
           then [(lost_path, mode_0755)] else [])
      \<and> mount_log (snd r) =
          mount_log s @ (if mount_sys h n c1 = Some EROFS then [c1, c2] else [c1])
      \<and> (fst r = 0) = mounted
      \<and> fst r = (if mounted then 0 else - 1)
      \<and> fst (DoMount (h\<lparr>mkdir_sys := m\<rparr>) source target ro remount executable ownerUid ownerGid
            permMask createLost s) = fst r
      \<and> mode_0755 = 493"
proof -
  let ?c1 = "mount_attempt h source target (mount_flags ro remount executable)
              ownerUid ownerGid permMask"
  let ?c2 = "mount_attempt h source target (mount_flags ro remount executable OR MS_RDONLY)
              ownerUid ownerGid permMask"
  let ?n = "length (mount_log s)"
  let ?mounted = "mount_sys h ?n ?c1 = None
      \<or> mount_sys h ?n ?c1 = Some EROFS \<and> mount_sys h (Suc ?n) ?c2 = None"
  let ?r = "DoMount h source target ro remount executable ownerUid ownerGid permMask createLost s"
  have res: "fst ?r = (if ?mounted then 0 else - 1)"
    by (simp add: DoMount_result split: option.splits)
  then have ok: "(fst ?r = 0) = ?mounted"
    by simp
  have dirs: "mkdir_log (snd ?r) =
      mkdir_log s @
        (if ?mounted \<and> createLost \<and> access_sys h (c_str target @ ''/LOST.DIR'') F_OK \<noteq> None
         then [(c_str target @ ''/LOST.DIR'', mode_0755)] else [])"
    using DoMount_mkdir_log [of h source target ro remount executable ownerUid ownerGid permMask
        createLost s]
    unfolding ok .
  have indep: "fst (DoMount (h\<lparr>mkdir_sys := m\<rparr>) source target ro remount executable
      ownerUid ownerGid permMask createLost s) = fst ?r"
    by (simp add: DoMount_result mount_attempt_mkdir_sys cong: option.case_cong if_cong)
  have mode: "mode_0755 = 493"
    by (simp add: mode_0755_def)
  from dirs DoMount_mount_log [of h source target ro remount executable ownerUid ownerGid
      permMask createLost s] ok res indep mode
  show ?thesis
    unfolding Let_def by (intro conjI)
qed

theorem DoMount_lost_dir_witness:
  "mount_log (snd (DoMount sample_host ''/dev/block/vold/public:8,1'' ''/mnt/media_rw/sd''
          False False False 1000 1000 7 True sample_state)) =
       [mount_attempt sample_host ''/dev/block/vold/public:8,1'' ''/mnt/media_rw/sd''
          (mount_flags False False False) 1000 1000 7,
        mount_attempt sample_host ''/dev/block/vold/public:8,1'' ''/mnt/media_rw/sd''
          (mount_flags False False False OR MS_RDONLY) 1000 1000 7]
   \<and> fst (DoMount sample_host ''/dev/block/vold/public:8,1'' ''/mnt/media_rw/sd''
          False False False 1000 1000 7 True sample_state) = 0
   \<and> mkdir_log (snd (DoMount sample_host ''/dev/block/vold/public:8,1'' ''/mnt/media_rw/sd''
          False False False 1000 1000 7 True sample_state)) = [(''/mnt/media_rw/sd/LOST.DIR'', 493)]
   \<and> fst (DoMount (sample_host\<lparr>mkdir_sys := (\<lambda>path mode. Some 13)\<rparr>)
          ''/dev/block/vold/public:8,1'' ''/mnt/media_rw/sd''
          False False False 1000 1000 7 True sample_state) = 0
   \<and> mkdir_log (snd (DoMount sample_host ''/dev/block/vold/public:8,1'' ''/mnt/media_rw/sd''
          False False False 1000 1000 7 False sample_state)) = []
   \<and> mkdir_log (snd (DoMount (sample_host\<lparr>access_sys := (\<lambda>path amode. None)\<rparr>)
          ''/dev/block/vold/public:8,1'' ''/mnt/media_rw/sd''
          False False False 1000 1000 7 True sample_state)) = []
   \<and> fst (DoMount (sample_host\<lparr>mount_sys := (\<lambda>n c. Some 22)\<rparr>)
          ''/dev/block/vold/public:8,1'' ''/mnt/media_rw/sd''
          False False False 1000 1000 7 True sample_state) = - 1
   \<and> mkdir_log (snd (DoMount (sample_host\<lparr>mount_sys := (\<lambda>n c. Some 22)\<rparr>)
          ''/dev/block/vold/public:8,1'' ''/mnt/media_rw/sd''
          False False False 1000 1000 7 True sample_state)) = []"
proof -
  have first: "mount_sys sample_host 0
     (mount_attempt h ''/dev/block/vold/public:8,1'' ''/mnt/media_rw/sd''
        (mount_flags False False False) 1000 1000 7) = Some EROFS" for h
    by (simp add: sample_host_def mount_attempt_def mount_flags_def flag_values)
  have second: "mount_sys sample_host (Suc 0)
     (mount_attempt h ''/dev/block/vold/public:8,1'' ''/mnt/media_rw/sd''
        (mount_flags False False False OR MS_RDONLY) 1000 1000 7) = None" for h
    by (simp add: sample_host_def mount_attempt_def mount_flags_def flag_values)
  have keep: "mount_sys (sample_host\<lparr>access_sys := a\<rparr>) = mount_sys sample_host" for a
    by simp
  have other: "mount_sys (sample_host\<lparr>mount_sys := (\<lambda>n c. Some 22)\<rparr>) k c = Some 22"
    "(22 :: int) \<noteq> EROFS" for k c
    by (simp_all add: EROFS_def)
  have path: "c_str ''/mnt/media_rw/sd'' = ''/mnt/media_rw/sd''"
    by (simp add: c_str_def)
  have absent: "access_sys sample_host ''/mnt/media_rw/sd/LOST.DIR'' F_OK \<noteq> None"
    "access_sys (sample_host\<lparr>mount_sys := ms\<rparr>) ''/mnt/media_rw/sd/LOST.DIR'' F_OK \<noteq> None" for ms
    by (simp_all add: sample_host_def)
  have logs: "mkdir_log sample_state = []" "mount_log sample_state = []"
    by (simp_all add: sample_state_def)
  from
    DoMount_lost_dir [of sample_host "''/dev/block/vold/public:8,1''" "''/mnt/media_rw/sd''"
      False False False 1000 1000 7 sample_state True "\<lambda>path mode. Some 13"]
    DoMount_lost_dir [of sample_host "''/dev/block/vold/public:8,1''" "''/mnt/media_rw/sd''"
      False False False 1000 1000 7 sample_state False "\<lambda>path mode. Some 13"]
    DoMount_lost_dir [of "sample_host\<lparr>access_sys := (\<lambda>path amode. None)\<rparr>"
      "''/dev/block/vold/public:8,1''" "''/mnt/media_rw/sd''"
      False False False 1000 1000 7 sample_state True "\<lambda>path mode. Some 13"]
    DoMount_lost_dir [of "sample_host\<lparr>mount_sys := (\<lambda>n c. Some 22)\<rparr>"
      "''/dev/block/vold/public:8,1''" "''/mnt/media_rw/sd''"
      False False False 1000 1000 7 sample_state True "\<lambda>path mode. Some 13"]
    first second keep other path absent logs
  show ?thesis
    by (simp add: Let_def)
qed

text \<open>
  C6. For every input, the flag word of the first mount call of \<^verbatim>\<open>DoMount\<close> contains
  \<^verbatim>\<open>MS_NODEV\<close>, \<^verbatim>\<open>MS_NOSUID\<close>, \<^verbatim>\<open>MS_DIRSYNC\<close> and \<^verbatim>\<open>MS_NOATIME\<close>; it contains
  \<^verbatim>\<open>MS_NOEXEC\<close> exactly when \<^verbatim>\<open>executable\<close> is false, \<^verbatim>\<open>MS_RDONLY\<close> exactly when
  \<^verbatim>\<open>ro\<close> is true and \<^verbatim>\<open>MS_REMOUNT\<close> exactly when \<^verbatim>\<open>remount\<close> is true; and it
  contains no other bit.
\<close>

theorem DoMount_flags:
  "let flags = mc_flags (mount_log (snd (DoMount h source target ro remount executable
         ownerUid ownerGid permMask createLost s)) ! length (mount_log s))
   in flags AND MS_NODEV = MS_NODEV
      \<and> flags AND MS_NOSUID = MS_NOSUID
      \<and> flags AND MS_DIRSYNC = MS_DIRSYNC
      \<and> flags AND MS_NOATIME = MS_NOATIME
      \<and> (flags AND MS_NOEXEC = MS_NOEXEC) = (\<not> executable)
      \<and> (flags AND MS_RDONLY = MS_RDONLY) = ro
      \<and> (flags AND MS_REMOUNT = MS_REMOUNT) = remount
      \<and> flags AND NOT (MS_NODEV OR MS_NOSUID OR MS_DIRSYNC OR MS_NOATIME OR MS_NOEXEC
            OR MS_RDONLY OR MS_REMOUNT) = 0"
proof -
  have "mc_flags (mount_log (snd (DoMount h source target ro remount executable
         ownerUid ownerGid permMask createLost s)) ! length (mount_log s)) =
       mount_flags ro remount executable"
    by (simp add: DoMount_first_call mount_attempt_def)
  then show ?thesis
    unfolding Let_def by (simp only: mount_flags_bits simp_thms)
qed

theorem DoMount_flags_witness:
  "mc_flags (mount_log (snd (DoMount sample_host ''/dev/block/vold/public:8,1''
      ''/mnt/media_rw/sd'' False False False 1000 1000 7 True sample_state)) ! 0)
     AND MS_NOEXEC = MS_NOEXEC
   \<and> mc_flags (mount_log (snd (DoMount sample_host ''/dev/block/vold/public:8,1''
      ''/mnt/media_rw/sd'' False False False 1000 1000 7 True sample_state)) ! 0)
     AND MS_RDONLY \<noteq> MS_RDONLY
   \<and> mc_flags (mount_log (snd (DoMount sample_host ''/dev/block/vold/public:8,1''
      ''/mnt/media_rw/sd'' False False False 1000 1000 7 True sample_state)) ! 0)
     AND MS_REMOUNT \<noteq> MS_REMOUNT
   \<and> mc_flags (mount_log (snd (DoMount sample_host ''/dev/block/vold/public:8,1''
      ''/mnt/media_rw/sd'' False False False 1000 1000 7 True sample_state)) ! 0)
     AND MS_NODEV = MS_NODEV"
  using DoMount_flags [of sample_host "''/dev/block/vold/public:8,1''" "''/mnt/media_rw/sd''"
      False False False 1000 1000 7 True sample_state]
  by (simp add: Let_def sample_state_def)

section \<open>The claim about Format\<close>

text \<open>
  C7. \<^verbatim>\<open>Format\<close> runs one command: the format tool with the arguments \<^verbatim>\<open>-O android -A\<close>,
  then \<^verbatim>\<open>-s <numSectors>\<close> (in decimal) unless \<^verbatim>\<open>numSectors\<close> is 0, then the source.
  It returns 0 exactly when the execution primitive returns 0; for any other value, a
  negative one (the launch failed) included, it returns -1 and sets \<^verbatim>\<open>errno\<close> to
  \<^verbatim>\<open>EIO\<close>. With 2048 sectors the command ends in \<^verbatim>\<open>-s 2048 <source>\<close>.
\<close>

theorem Format_command:
  "let r = Format h source numSectors s;
       status = exec_status h (length (exec_log s))
   in exec_log (snd r) =
        exec_log s @
          [Exec ([kMkfsPath, ''-O'', ''android'', ''-A''] @
                 (if numSectors = 0 then [] else [''-s'', to_base 10 (unat numSectors)]) @
                 [source])]
      \<and> fst r = (if status = 0 then 0 else - 1)
      \<and> errno (snd r) = (if status = 0 then errno s else EIO)
      \<and> mount_log (snd r) = mount_log s \<and> mkdir_log (snd r) = mkdir_log s"
  by (simp add: Format_def ForkExecvp_def Let_def)

theorem Format_command_witness:
  "exec_log (snd (Format sample_host ''/dev/block/vold/disk:8,0'' 2048 sample_state)) =
     [Exec [''/system/bin/newfs_msdos'', ''-O'', ''android'', ''-A'', ''-s'', ''2048'',
            ''/dev/block/vold/disk:8,0'']]
   \<and> exec_log (snd (Format sample_host ''/dev/block/vold/disk:8,0'' 0 sample_state)) =
     [Exec [''/system/bin/newfs_msdos'', ''-O'', ''android'', ''-A'',
            ''/dev/block/vold/disk:8,0'']]
   \<and> fst (Format sample_host ''/dev/block/vold/disk:8,0'' 2048 sample_state) = 0
   \<and> fst (Format (sample_host\<lparr>exec_status := (\<lambda>n. 1)\<rparr>) ''/dev/block/vold/disk:8,0'' 2048
          sample_state) = - 1
   \<and> errno (snd (Format (sample_host\<lparr>exec_status := (\<lambda>n. - 1)\<rparr>) ''/dev/block/vold/disk:8,0''
          0 sample_state)) = 5"
  using
    Format_command [of sample_host "''/dev/block/vold/disk:8,0''" 2048 sample_state]
    Format_command [of sample_host "''/dev/block/vold/disk:8,0''" 0 sample_state]
    Format_command [of "sample_host\<lparr>exec_status := (\<lambda>n. 1)\<rparr>" "''/dev/block/vold/disk:8,0''"
      2048 sample_state]
    Format_command [of "sample_host\<lparr>exec_status := (\<lambda>n. - 1)\<rparr>" "''/dev/block/vold/disk:8,0''"
      0 sample_state]
  by (simp add: Let_def sample_host_def sample_state_def kMkfsPath_def sample_numbers EIO_def)

section \<open>The claim about IsSupported\<close>

text \<open>
  C8. \<^verbatim>\<open>IsSupported\<close> returns true exactly when the format tool is executable, the check
  tool is executable and the kernel supports \<^verbatim>\<open>vfat\<close>. It always returns a truth value,
  and it runs no command, mounts nothing and creates no directory: the state it leaves
  differs from the one it found at most in \<^verbatim>\<open>errno\<close>, the error variable of the C
  library, which a failing \<^verbatim>\<open>access\<close> sets.
\<close>

theorem IsSupported_iff:
  "fst (IsSupported h s) =
     (access_sys h kMkfsPath X_OK = None \<and> access_sys h kFsckPath X_OK = None
      \<and> fs_supported h ''vfat'')
   \<and> exec_log (snd (IsSupported h s)) = exec_log s
   \<and> mount_log (snd (IsSupported h s)) = mount_log s
   \<and> mkdir_log (snd (IsSupported h s)) = mkdir_log s
   \<and> (snd (IsSupported h s))\<lparr>errno := errno s\<rparr> = s"
  by (simp add: IsSupported_def IsFilesystemSupported_def access_def Let_def
      split: option.splits)

theorem IsSupported_iff_witness:
  "fst (IsSupported sample_host sample_state)
   \<and> \<not> fst (IsSupported (sample_host\<lparr>fs_supported := (\<lambda>fsType. False)\<rparr>) sample_state)
   \<and> \<not> fst (IsSupported
        (sample_host\<lparr>access_sys := (\<lambda>path amode. if path = kFsckPath then Some 13 else None)\<rparr>)
        sample_state)
   \<and> \<not> fst (IsSupported
        (sample_host\<lparr>access_sys := (\<lambda>path amode. if path = kMkfsPath then Some 2 else None)\<rparr>)
        sample_state)"
  using
    IsSupported_iff [of sample_host sample_state]
    IsSupported_iff [of "sample_host\<lparr>fs_supported := (\<lambda>fsType. False)\<rparr>" sample_state]
    IsSupported_iff [of
      "sample_host\<lparr>access_sys := (\<lambda>path amode. if path = kFsckPath then Some 13 else None)\<rparr>"
      sample_state]
    IsSupported_iff [of
      "sample_host\<lparr>access_sys := (\<lambda>path amode. if path = kMkfsPath then Some 2 else None)\<rparr>"
      sample_state]
  by (simp add: sample_host_def kMkfsPath_def kFsckPath_def)

end
